theory Spec2Isabelle
  imports Complex_Main "HOL-Library.Word" "HOL-Library.Sublist"
begin

section \<open>The upload-and-playback handler of the voice chat front end\<close>

text \<open>
  The repository's one piece of logic is the Gradio event handler \<open>voice_chat\<close> of
  \<^verbatim>\<open>src/gradio_app/app.py\<close> (lines 21 to 133). It is sequential glue code around
  collaborators it does not implement: the clock, the temporary directory, the WAV codec
  (\<^verbatim>\<open>scipy.io.wavfile.write\<close>), the file system, the HTTP client (\<^verbatim>\<open>requests.post\<close>)
  and the progress sink. The embedding below keeps the handler's control flow statement
  by statement and takes the collaborators as a record of behaviours, so that a theorem
  about \<open>voice_chat\<close> holds for every behaviour the record can describe.

  Calls to the logger are left out: they produce no value the handler uses. The one
  expression evaluated only for a log line that can fail, \<^verbatim>\<open>audio_data.shape\<close> in
  line 36, is covered by the malformed-audio case below.
\<close>

subsection \<open>Data\<close>

type_synonym bytes = "8 word list"

text \<open>
  A raised Python exception, as far as the handler can tell exceptions apart: the
  \<^verbatim>\<open>except\<close> clauses test membership in \<^verbatim>\<open>requests.exceptions.Timeout\<close> and in
  \<^verbatim>\<open>requests.exceptions.ConnectionError\<close>, and the messages embed \<^verbatim>\<open>str(e)\<close>.
  The two classes are not disjoint (\<^verbatim>\<open>requests.exceptions.ConnectTimeout\<close> inherits from
  both), hence two independent flags. Every exception modelled is an instance of
  \<^verbatim>\<open>Exception\<close>.

  \<open>timeout_elapsed\<close> is the cause, which the handler does not see: whether the
  exception reports that the timeout of the request elapsed. The class does not follow
  the cause: \<^verbatim>\<open>requests\<close> reads the body of the response before \<^verbatim>\<open>post\<close> returns
  and raises a timeout met there as a \<^verbatim>\<open>ConnectionError\<close> that is no \<^verbatim>\<open>Timeout\<close>.
\<close>

record exn =
  is_timeout :: bool
  is_connection_error :: bool
  timeout_elapsed :: bool
  description :: string

text \<open>
  The \<^verbatim>\<open>audio\<close> argument when it is not \<^verbatim>\<open>None\<close>: the pair (sample rate, samples) the
  recording surface supplies, or any other object, on which the unpacking of line 33 or
  the attribute access of line 36 raises the given exception.
\<close>

datatype audio_value =
  Captured int "int list"
| NotCaptured exn

text \<open>The value \<^verbatim>\<open>response.json()\<close> returns when it returns.\<close>

datatype json_value =
  JNull
| JBool bool
| JNumber real
| JString string
| JArray "json_value list"
| JObject "(string \<times> json_value) list"

text \<open>
  The fields of a \<^verbatim>\<open>requests.Response\<close> the handler reads. \<open>json\<close> is the outcome of
  the method \<^verbatim>\<open>response.json()\<close>: the exception it raises on an unparseable body, or the
  parsed value.
\<close>

record response =
  status_code :: int
  content :: bytes
  content_type :: string
  json :: "exn + json_value"

text \<open>What one call of \<^verbatim>\<open>requests.post\<close> in lines 56 to 60 sends.\<close>

record request =
  url :: string
  field :: string
  filename :: string
  body :: bytes
  mime :: string
  timeout :: nat

type_synonym fs = "string \<rightharpoonup> bytes"

text \<open>
  The state the handler acts on: the files of the file system, the number of readings of
  \<^verbatim>\<open>time.time()\<close> taken so far, and the log of the HTTP requests issued so far.
\<close>

record world =
  files :: fs
  ticks :: nat
  posts :: "request list"

text \<open>
  The collaborators. \<open>clock n\<close> is the \<open>n\<close>-th reading of \<^verbatim>\<open>time.time()\<close> in seconds;
  \<open>gettempdir\<close> is the outcome of \<^verbatim>\<open>tempfile.gettempdir()\<close>; \<open>wavfile_write\<close> is the
  codec, free to raise and to change the file system in any way; \<open>open_rb_fault\<close> says
  where opening a file for reading raises; \<open>write_file\<close> is what the file system makes
  of opening a path for writing, writing the bytes and closing (lines 99 and 100), free to
  raise and to leave any files behind; \<open>requests_post\<close> answers a request given the requests issued before it; \<open>progress\<close>
  says where the progress sink raises; \<open>py_str\<close> is Python's \<^verbatim>\<open>str()\<close> on parsed JSON
  values that are not strings.
\<close>

record env =
  clock :: "nat \<Rightarrow> real"
  gettempdir :: "exn + string"
  wavfile_write :: "string \<Rightarrow> int \<Rightarrow> int list \<Rightarrow> fs \<Rightarrow> exn option \<times> fs"
  open_rb_fault :: "string \<Rightarrow> exn option"
  write_file :: "string \<Rightarrow> bytes \<Rightarrow> fs \<Rightarrow> exn option \<times> fs"
  requests_post :: "request list \<Rightarrow> request \<Rightarrow> exn + response"
  progress :: "real \<Rightarrow> string \<Rightarrow> exn option"
  py_str :: "json_value \<Rightarrow> string"

text \<open>The pair the handler returns: the file path or \<^verbatim>\<open>None\<close>, and the message.\<close>

type_synonym result = "string option \<times> string"

text \<open>
  How a block of statements ends: an exception propagates, the handler returns, or
  control falls through to the next statement with a value.
\<close>

datatype 'a flow =
  Raise exn
| Return result
| Continue 'a

subsection \<open>Constants and library functions\<close>

definition API_URL :: string where
  "API_URL = ''http://localhost:8000/voice-chat''"

definition REQUEST_TIMEOUT :: nat where
  "REQUEST_TIMEOUT = 300"

text \<open>Python's \<^verbatim>\<open>int()\<close> on a float truncates towards zero.\<close>

definition py_int :: "real \<Rightarrow> int" where
  "py_int x = (if 0 \<le> x then \<lfloor>x\<rfloor> else \<lceil>x\<rceil>)"

definition digit :: "nat \<Rightarrow> char" where
  "digit d = ''0123456789'' ! d"

fun show_nat :: "nat \<Rightarrow> string" where
  "show_nat n = (if n < 10 then [digit n] else show_nat (n div 10) @ [digit (n mod 10)])"

declare show_nat.simps [simp del]

text \<open>The decimal text an f-string gives for an integer.\<close>

definition show_int :: "int \<Rightarrow> string" where
  "show_int i = (if i < 0 then ''-'' @ show_nat (nat (- i)) else show_nat (nat i))"

text \<open>\<^verbatim>\<open>os.path.join\<close> of \<^verbatim>\<open>posixpath\<close> on two components.\<close>

definition os_path_join :: "string \<Rightarrow> string \<Rightarrow> string" where
  "os_path_join a b =
     (if b \<noteq> [] \<and> hd b = CHR ''/'' then b
      else if a = [] \<or> last a = CHR ''/'' then a @ b
      else a @ ''/'' @ b)"

definition path_exists :: "fs \<Rightarrow> string \<Rightarrow> bool" where
  "path_exists fs p = (fs p \<noteq> None)"

definition time_time :: "env \<Rightarrow> world \<Rightarrow> real \<times> world" where
  "time_time E w = (clock E (ticks w), w\<lparr>ticks := Suc (ticks w)\<rparr>)"

definition file_not_found :: "string \<Rightarrow> exn" where
  "file_not_found p =
     \<lparr>is_timeout = False, is_connection_error = False, timeout_elapsed = False,
      description = ''[Errno 2] No such file or directory: '' @ [CHR 0x27] @ p @ [CHR 0x27]\<rparr>"

text \<open>
  \<^verbatim>\<open>open(path, "rb")\<close> followed by reading the whole file, as \<^verbatim>\<open>requests\<close> does with
  the file object it is given.
\<close>

definition open_rb :: "env \<Rightarrow> string \<Rightarrow> world \<Rightarrow> exn + bytes" where
  "open_rb E p w =
     (case open_rb_fault E p of
        Some e \<Rightarrow> Inl e
      | None \<Rightarrow> (case files w p of None \<Rightarrow> Inl (file_not_found p) | Some bs \<Rightarrow> Inr bs))"

subsection \<open>The messages\<close>

text \<open>
  Python strings are sequences of code points; here they are their UTF-8 bytes. The
  signs are U+26A0 U+FE0F (warning), U+2705 (check mark), U+1F552 (clock), U+1F50C (plug)
  and U+1F534 (red circle).
\<close>

definition warning_sign :: string where
  "warning_sign = [CHR 0xE2, CHR 0x9A, CHR 0xA0, CHR 0xEF, CHR 0xB8, CHR 0x8F]"

definition check_sign :: string where
  "check_sign = [CHR 0xE2, CHR 0x9C, CHR 0x85]"

definition clock_sign :: string where
  "clock_sign = [CHR 0xF0, CHR 0x9F, CHR 0x95, CHR 0x92]"

definition plug_sign :: string where
  "plug_sign = [CHR 0xF0, CHR 0x9F, CHR 0x94, CHR 0x8C]"

definition red_sign :: string where
  "red_sign = [CHR 0xF0, CHR 0x9F, CHR 0x94, CHR 0xB4]"

definition msg_no_audio :: string where
  "msg_no_audio = warning_sign @ '' Mohon rekam suara terlebih dahulu''"

definition msg_input_save_failed :: string where
  "msg_input_save_failed = warning_sign @ '' Gagal menyimpan file audio''"

definition msg_timeout :: string where
  "msg_timeout = clock_sign @
     '' Waktu permintaan habis. Server membutuhkan waktu terlalu lama untuk merespons.''"

definition msg_connection :: string where
  "msg_connection = plug_sign @
     '' Tidak dapat terhubung ke server. Pastikan server berjalan di http://localhost:8000''"

definition msg_request_error :: "exn \<Rightarrow> string" where
  "msg_request_error e = red_sign @ '' Error: '' @ description e"

definition msg_empty_response :: string where
  "msg_empty_response = warning_sign @ '' Server mengembalikan respons kosong''"

definition msg_output_invalid :: string where
  "msg_output_invalid = warning_sign @ '' File audio respons kosong atau tidak valid''"

definition msg_output_save_failed :: "exn \<Rightarrow> string" where
  "msg_output_save_failed e =
     warning_sign @ '' Gagal menyimpan file audio respons: '' @ description e"

definition msg_success :: string where
  "msg_success = check_sign @ '' Berhasil mendapatkan respons''"

definition msg_server_error :: "string \<Rightarrow> string" where
  "msg_server_error error_detail = warning_sign @ '' Server Error: '' @ error_detail"

definition msg_unexpected :: "exn \<Rightarrow> string" where
  "msg_unexpected e = warning_sign @ '' Terjadi kesalahan: '' @ description e"

subsection \<open>The handler\<close>

text \<open>
  Lines 33 to 47: unpack the audio, name the input file after the whole seconds of the
  clock, have the codec write it, and return early when it is not there afterwards.
  Falls through with the file name and the path.
\<close>

definition save_input :: "env \<Rightarrow> audio_value \<Rightarrow> world \<Rightarrow> (string \<times> string) flow \<times> world" where
  "save_input E audio w =
     (case audio of
        NotCaptured e \<Rightarrow> (Raise e, w)
      | Captured sr audio_data \<Rightarrow>
          (case time_time E w of (t, w1) \<Rightarrow>
             let audio_filename = ''input_'' @ show_int (py_int t) @ ''.wav'' in
             (case gettempdir E of
                Inl e \<Rightarrow> (Raise e, w1)
              | Inr dir \<Rightarrow>
                  let audio_path = os_path_join dir audio_filename in
                  (case wavfile_write E audio_path sr audio_data (files w1) of (r, fs') \<Rightarrow>
                     let w2 = w1\<lparr>files := fs'\<rparr> in
                     (case r of
                        Some e \<Rightarrow> (Raise e, w2)
                      | None \<Rightarrow>
                          if \<not> path_exists (files w2) audio_path
                          then (Return (None, msg_input_save_failed), w2)
                          else (Continue (audio_filename, audio_path), w2))))))"

text \<open>
  The \<^verbatim>\<open>except\<close> clauses of lines 65 to 78, in the source's order: the first clause
  whose class the exception belongs to handles it.
\<close>

definition request_failed :: "exn \<Rightarrow> result" where
  "request_failed e =
     (if is_timeout e then (None, msg_timeout)
      else if is_connection_error e then (None, msg_connection)
      else (None, msg_request_error e))"

text \<open>The arguments of \<^verbatim>\<open>requests.post\<close> in lines 55 to 60.\<close>

definition upload_request :: "string \<Rightarrow> bytes \<Rightarrow> request" where
  "upload_request audio_filename f =
     \<lparr>url = API_URL, field = ''file'', filename = audio_filename, body = f,
      mime = ''audio/wav'', timeout = REQUEST_TIMEOUT\<rparr>"

text \<open>
  Lines 52 to 78: open the input file and post it. The request is logged as issued
  whether or not the client then raises.
\<close>

definition send_request :: "env \<Rightarrow> string \<Rightarrow> string \<Rightarrow> world \<Rightarrow> response flow \<times> world" where
  "send_request E audio_filename audio_path w =
     (case open_rb E audio_path w of
        Inl e \<Rightarrow> (Return (request_failed e), w)
      | Inr f \<Rightarrow>
          let req = upload_request audio_filename f;
              w1 = w\<lparr>posts := posts w @ [req]\<rparr>
          in (case requests_post E (posts w) req of
                Inl e \<Rightarrow> (Return (request_failed e), w1)
              | Inr response \<Rightarrow> (Continue response, w1)))"

text \<open>
  The test of line 104: its \<^verbatim>\<open>or\<close> asks for the size of the file only when the file
  exists.
\<close>

definition missing_or_empty :: "fs \<Rightarrow> string \<Rightarrow> bool" where
  "missing_or_empty fs p = (case fs p of None \<Rightarrow> True | Some c \<Rightarrow> length c = 0)"

text \<open>
  Lines 98 to 113: have the file system write the response bytes, then check the file.
  An exception of the write is handled by line 110; a write that returns is followed by
  the test of line 104 on whatever files it left. Yields the handler's return value when
  the block returns, and nothing when control falls through to line 115.
\<close>

definition save_output :: "env \<Rightarrow> string \<Rightarrow> bytes \<Rightarrow> world \<Rightarrow> result option \<times> world" where
  "save_output E output_audio_path bs w =
     (case write_file E output_audio_path bs (files w) of (r, fs') \<Rightarrow>
        let w1 = w\<lparr>files := fs'\<rparr> in
        (case r of
           Some e \<Rightarrow> (Some (None, msg_output_save_failed e), w1)
         | None \<Rightarrow>
             if missing_or_empty (files w1) output_audio_path
             then (Some (None, msg_output_invalid), w1)
             else (None, w1)))"

text \<open>
  \<^verbatim>\<open>error_content.get('message', default)\<close> of line 122 on the parsed body.
  \<open>JObject\<close> carries the items of the parsed \<^verbatim>\<open>dict\<close>. The outer \<open>None\<close> is the
  \<^verbatim>\<open>AttributeError\<close> on a parsed value that is not an object and so has no \<^verbatim>\<open>get\<close>
  (the bare \<^verbatim>\<open>except\<close> of line 124 takes over); the inner \<open>None\<close> is the missing key.
\<close>

definition get_message :: "json_value \<Rightarrow> json_value option option" where
  "get_message v = (case v of JObject kvs \<Rightarrow> Some (map_of kvs ''message'') | _ \<Rightarrow> None)"

text \<open>What an f-string puts in place of a parsed JSON value.\<close>

definition format_value :: "env \<Rightarrow> json_value \<Rightarrow> string" where
  "format_value E v = (case v of JString s \<Rightarrow> s | _ \<Rightarrow> py_str E v)"

definition status_detail :: "response \<Rightarrow> string" where
  "status_detail response = ''Kode status: '' @ show_int (status_code response)"

text \<open>Lines 120 to 125.\<close>

definition error_detail :: "env \<Rightarrow> response \<Rightarrow> string" where
  "error_detail E response =
     (if content response = [] then status_detail response
      else (case json response of
              Inl e \<Rightarrow> status_detail response
            | Inr error_content \<Rightarrow>
                (case get_message error_content of
                   None \<Rightarrow> status_detail response
                 | Some None \<Rightarrow> status_detail response
                 | Some (Some m) \<Rightarrow> format_value E m)))"

text \<open>
  Lines 82 to 128: what the handler does with the response. \<open>Inl e\<close> is the exception
  \<open>e\<close> propagating to the outer \<^verbatim>\<open>except\<close>, \<open>Inr r\<close> the pair returned.
\<close>

definition handle_response :: "env \<Rightarrow> response \<Rightarrow> world \<Rightarrow> (exn + result) \<times> world" where
  "handle_response E response w =
     (if status_code response = 200 then
        (if content response = [] then (Inr (None, msg_empty_response), w)
         else
           (case gettempdir E of
              Inl e \<Rightarrow> (Inl e, w)
            | Inr dir \<Rightarrow>
                (case time_time E w of (t, w1) \<Rightarrow>
                   let output_audio_path =
                         os_path_join dir (''tts_output_'' @ show_int (py_int t) @ ''.wav'')
                   in (case save_output E output_audio_path (content response) w1 of
                         (Some r, w2) \<Rightarrow> (Inr r, w2)
                       | (None, w2) \<Rightarrow>
                           (case progress E 1 ''Selesai!'' of
                              Some e \<Rightarrow> (Inl e, w2)
                            | None \<Rightarrow> (Inr (Some output_audio_path, msg_success), w2))))))
      else (Inr (None, msg_server_error (error_detail E response)), w))"

text \<open>
  Lines 33 to 80: everything of the \<^verbatim>\<open>try\<close> block up to the point where the response
  is inspected. Falls through with the response received.
\<close>

definition upload :: "env \<Rightarrow> audio_value \<Rightarrow> world \<Rightarrow> response flow \<times> world" where
  "upload E audio w =
     (case save_input E audio w of
        (Raise e, w1) \<Rightarrow> (Raise e, w1)
      | (Return r, w1) \<Rightarrow> (Return r, w1)
      | (Continue (audio_filename, audio_path), w1) \<Rightarrow>
          (case progress E (3 / 10) ''Mengirim ke server...'' of
             Some e \<Rightarrow> (Raise e, w1)
           | None \<Rightarrow>
               (case send_request E audio_filename audio_path w1 of
                  (Raise e, w2) \<Rightarrow> (Raise e, w2)
                | (Return r, w2) \<Rightarrow> (Return r, w2)
                | (Continue response, w2) \<Rightarrow>
                    (case progress E (7 / 10) ''Mendapatkan balasan...'' of
                       Some e \<Rightarrow> (Raise e, w2)
                     | None \<Rightarrow> (Continue response, w2)))))"

text \<open>The body of the outer \<^verbatim>\<open>try\<close>, lines 33 to 128.\<close>

definition try_body :: "env \<Rightarrow> audio_value \<Rightarrow> world \<Rightarrow> (exn + result) \<times> world" where
  "try_body E audio w =
     (case upload E audio w of
        (Raise e, w1) \<Rightarrow> (Inl e, w1)
      | (Return r, w1) \<Rightarrow> (Inr r, w1)
      | (Continue response, w1) \<Rightarrow> handle_response E response w1)"

text \<open>
  The handler, lines 21 to 133. \<open>Inl e\<close> is the exception \<open>e\<close> leaving the handler,
  \<open>Inr r\<close> the pair it returns. The first progress report of line 30 stands before the
  \<^verbatim>\<open>try\<close> of line 32; the \<^verbatim>\<open>except Exception\<close> of line 130 turns what the body
  raises into a returned pair.
\<close>

definition voice_chat :: "env \<Rightarrow> audio_value option \<Rightarrow> world \<Rightarrow> (exn + result) \<times> world" where
  "voice_chat E audio w =
     (case audio of
        None \<Rightarrow> (Inr (None, msg_no_audio), w)
      | Some a \<Rightarrow>
          (case progress E 0 ''Memproses suara...'' of
             Some e \<Rightarrow> (Inl e, w)
           | None \<Rightarrow>
               (case try_body E a w of
                  (Inl e, w1) \<Rightarrow> (Inr (None, msg_unexpected e), w1)
                | (Inr r, w1) \<Rightarrow> (Inr r, w1))))"

subsection \<open>The message field of an error body\<close>

text \<open>
  The specification's notion, in its words: the value of the structured message field of
  a response body, present when the body is not empty, parses, is an object and has the
  key \<^verbatim>\<open>message\<close>.
\<close>

definition message_field :: "response \<Rightarrow> json_value option" where
  "message_field r =
     (if content r = [] then None
      else (case json r of
              Inl e \<Rightarrow> None
            | Inr v \<Rightarrow> (case v of JObject kvs \<Rightarrow> map_of kvs ''message'' | _ \<Rightarrow> None)))"

subsection \<open>Concrete collaborators\<close>

text \<open>
  A well-behaved set of collaborators around a given server, and concrete inputs, on
  which the handler is run below. The clock gives four readings a second from
  1700000000 on; the codec writes a fixed four-byte file; the file system stores what is
  written.
\<close>

definition plain_error :: "string \<Rightarrow> exn" where
  "plain_error s =
     \<lparr>is_timeout = False, is_connection_error = False, timeout_elapsed = False,
      description = s\<rparr>"


definition connection_refused :: exn where
  "connection_refused =
     \<lparr>is_timeout = False, is_connection_error = True, timeout_elapsed = False,
      description = ''Connection refused''\<rparr>"

text \<open>An instance of \<^verbatim>\<open>requests.exceptions.ConnectTimeout\<close>.\<close>

definition connect_timeout :: exn where
  "connect_timeout =
     \<lparr>is_timeout = True, is_connection_error = True, timeout_elapsed = True,
      description = ''Connection timed out''\<rparr>"


definition riff :: bytes where
  "riff = [0x52, 0x49, 0x46, 0x46]"

definition demo_env :: "(request list \<Rightarrow> request \<Rightarrow> exn + response) \<Rightarrow> env" where
  "demo_env server =
     \<lparr>clock = (\<lambda>n. 1700000000 + real n / 4),
      gettempdir = Inr ''/tmp'',
      wavfile_write = (\<lambda>p sr d fs. (None, fs(p \<mapsto> riff))),
      open_rb_fault = (\<lambda>p. None),
      write_file = (\<lambda>p bs fs. (None, fs(p \<mapsto> bs))),
      requests_post = server,
      progress = (\<lambda>f d. None),
      py_str = (\<lambda>v. ''?'')\<rparr>"

definition world0 :: world where
  "world0 = \<lparr>files = Map.empty, ticks = 0, posts = []\<rparr>"

definition clip :: audio_value where
  "clip = Captured 16000 [0, 0, 0, 0]"

definition input_path :: string where
  "input_path = ''/tmp/input_1700000000.wav''"

definition output_path :: string where
  "output_path = ''/tmp/tts_output_1700000000.wav''"

definition request0 :: request where
  "request0 = upload_request ''input_1700000000.wav'' riff"

text \<open>The world after the input file is saved, and after the request is issued.\<close>

definition world1 :: world where
  "world1 = \<lparr>files = [input_path \<mapsto> riff], ticks = 1, posts = []\<rparr>"

definition world2 :: world where
  "world2 = \<lparr>files = [input_path \<mapsto> riff], ticks = 1, posts = [request0]\<rparr>"

definition reply :: "int \<Rightarrow> bytes \<Rightarrow> exn + json_value \<Rightarrow> response" where
  "reply c bs j = \<lparr>status_code = c, content = bs, content_type = ''audio/wav'', json = j\<rparr>"

definition not_json :: "exn + json_value" where
  "not_json = Inl (plain_error ''Expecting value: line 1 column 1 (char 0)'')"

text \<open>An error reply whose body carries a message.\<close>

definition error_body :: response where
  "error_body =
     reply 503 [0x7B, 0x7D] (Inr (JObject [(''message'', JString ''model not loaded'')]))"

text \<open>A server that answers the first request with one body and later ones with another.\<close>

definition two_replies :: "request list \<Rightarrow> request \<Rightarrow> exn + response" where
  "two_replies history req =
     (if history = [] then Inr (reply 200 [1, 2, 3] not_json) else Inr (reply 200 [4, 5] not_json))"

definition always :: "exn + response \<Rightarrow> request list \<Rightarrow> request \<Rightarrow> exn + response" where
  "always r history req = r"

text \<open>A progress sink that raises on the first report and on no other.\<close>

definition sink_error :: exn where
  "sink_error = plain_error ''progress sink closed''"

definition failing_sink :: "real \<Rightarrow> string \<Rightarrow> exn option" where
  "failing_sink fraction desc = (if fraction = 0 then Some sink_error else None)"

text \<open>A file system on which a write returns and leaves the file empty.\<close>

definition empty_write :: "string \<Rightarrow> bytes \<Rightarrow> fs \<Rightarrow> exn option \<times> fs" where
  "empty_write p bs fs = (None, fs(p \<mapsto> []))"

text \<open>The world after the first of two submissions to \<open>two_replies\<close>.\<close>

definition world3 :: world where
  "world3 =
     \<lparr>files = [input_path \<mapsto> riff, output_path \<mapsto> [1, 2, 3]], ticks = 2,
      posts = [request0]\<rparr>"

text \<open>A codec that returns without raising and without writing anything.\<close>

definition idle_codec :: "string \<Rightarrow> int \<Rightarrow> int list \<Rightarrow> fs \<Rightarrow> exn option \<times> fs" where
  "idle_codec p sr d fs = (None, fs)"

section \<open>Properties\<close>

subsection \<open>Supporting lemmas\<close>

text \<open>No message of a warning or error branch is the success message.\<close>

lemma success_distinct:
  "msg_no_audio \<noteq> msg_success" "msg_input_save_failed \<noteq> msg_success"
  "msg_timeout \<noteq> msg_success" "msg_connection \<noteq> msg_success"
  "msg_request_error e \<noteq> msg_success" "msg_empty_response \<noteq> msg_success"
  "msg_output_invalid \<noteq> msg_success" "msg_output_save_failed e \<noteq> msg_success"
  "msg_server_error d \<noteq> msg_success" "msg_unexpected e \<noteq> msg_success"
  by (simp_all add: msg_no_audio_def msg_input_save_failed_def msg_timeout_def
      msg_connection_def msg_request_error_def msg_empty_response_def msg_output_invalid_def
      msg_output_save_failed_def msg_server_error_def msg_unexpected_def msg_success_def
      warning_sign_def check_sign_def clock_sign_def plug_sign_def red_sign_def)

text \<open>Every early return of a stage carries no path and a message other than success.\<close>

lemma request_failed_result: "request_failed e = (p, m) \<Longrightarrow> p = None \<and> m \<noteq> msg_success"
  by (auto simp: request_failed_def success_distinct split: if_splits)

lemma save_input_return:
  "save_input E a w = (Return (p, m), w') \<Longrightarrow> p = None \<and> m \<noteq> msg_success"
  by (auto simp: save_input_def time_time_def Let_def success_distinct
      split: audio_value.splits sum.splits prod.splits option.splits if_splits)

lemma send_request_return:
  "send_request E fn ap w = (Return (p, m), w') \<Longrightarrow> p = None \<and> m \<noteq> msg_success"
  by (auto simp: send_request_def Let_def split: sum.splits dest: request_failed_result)

lemma upload_return:
  "upload E a w = (Return (p, m), w') \<Longrightarrow> p = None \<and> m \<noteq> msg_success"
  unfolding upload_def
  by (auto split: prod.splits flow.splits option.splits
      dest: save_input_return send_request_return)

lemma save_output_result:
  "save_output E out bs w = (Some (p, m), w') \<Longrightarrow> p = None \<and> m \<noteq> msg_success"
  by (auto simp: save_output_def Let_def success_distinct
      split: prod.splits option.splits if_splits)

lemma handle_response_result:
  "handle_response E r w = (Inr (p, m), w') \<Longrightarrow> (p \<noteq> None) = (m = msg_success)"
  unfolding handle_response_def
  by (auto simp: Let_def success_distinct
      split: if_splits sum.splits prod.splits option.splits dest: save_output_result)

lemma try_body_result:
  "try_body E a w = (Inr (p, m), w') \<Longrightarrow> (p \<noteq> None) = (m = msg_success)"
  unfolding try_body_def
  by (auto split: prod.splits flow.splits dest: upload_return handle_response_result)

text \<open>
  Between saving the input and inspecting the response the handler writes no file: the
  files are those the codec left.
\<close>

lemma upload_files:
  "upload E a w = (x, w1) \<Longrightarrow> files w1 = files (snd (save_input E a w))"
  unfolding upload_def
  by (auto simp: send_request_def Let_def split: prod.splits flow.splits option.splits sum.splits)

text \<open>
  Once the first progress report has passed, or when there is no audio, the handler
  returns a pair: nothing raised inside the \<^verbatim>\<open>try\<close> leaves it.
\<close>

lemma voice_chat_returns:
  "audio = None \<or> progress E 0 ''Memproses suara...'' = None \<Longrightarrow>
     \<exists>r. fst (voice_chat E audio w) = Inr r"
  by (auto simp: voice_chat_def split: option.splits prod.splits sum.splits)

text \<open>The handler on the concrete collaborators, stage by stage.\<close>

lemma show_1700000000: "show_int 1700000000 = ''1700000000''"
  by (simp add: show_int_def show_nat.simps digit_def)

lemma demo_progress: "progress (demo_env srv) f d = None"
  by (simp add: demo_env_def)

lemma demo_fields:
  "gettempdir (demo_env srv) = Inr ''/tmp''"
  "write_file (demo_env srv) p bs fs = (None, fs(p \<mapsto> bs))"
  "requests_post (demo_env srv) = srv"
  "clock (demo_env srv) n = 1700000000 + real n / 4"
  by (simp_all add: demo_env_def)

lemma demo_save_input:
  "save_input (demo_env srv) clip world0 =
     (Continue (''input_1700000000.wav'', input_path), world1)"
  by (simp add: save_input_def clip_def world0_def world1_def time_time_def demo_env_def
      py_int_def show_1700000000 os_path_join_def path_exists_def input_path_def Let_def)

lemma demo_send:
  "send_request (demo_env srv) ''input_1700000000.wav'' input_path world1 =
     (case srv [] request0 of
        Inl e \<Rightarrow> (Return (request_failed e), world2)
      | Inr r \<Rightarrow> (Continue r, world2))"
  by (simp add: send_request_def open_rb_def demo_env_def world1_def world2_def request0_def
      Let_def split: sum.splits)

lemma demo_upload:
  "upload (demo_env srv) clip world0 =
     (case srv [] request0 of
        Inl e \<Rightarrow> (Return (request_failed e), world2)
      | Inr r \<Rightarrow> (Continue r, world2))"
  by (simp add: upload_def demo_save_input demo_send demo_progress split: sum.splits)

text \<open>Two submissions to \<open>two_replies\<close> within one second.\<close>

lemma demo_first_run:
  "voice_chat (demo_env two_replies) (Some clip) world0
     = (Inr (Some output_path, msg_success), world3)"
  by (simp add: voice_chat_def try_body_def demo_upload demo_progress two_replies_def
      handle_response_def reply_def time_time_def world2_def world3_def save_output_def
      missing_or_empty_def py_int_def show_1700000000 os_path_join_def output_path_def
      demo_fields Let_def)

lemma demo_second_run:
  "voice_chat (demo_env two_replies) (Some clip) world3
     = (Inr (Some output_path, msg_success),
        \<lparr>files = [input_path \<mapsto> riff, output_path \<mapsto> [4, 5]], ticks = 4,
         posts = [request0, request0]\<rparr>)"
  by (simp add: voice_chat_def try_body_def upload_def save_input_def send_request_def
      open_rb_def handle_response_def save_output_def missing_or_empty_def time_time_def
      path_exists_def clip_def two_replies_def reply_def request0_def py_int_def world3_def
      show_1700000000 os_path_join_def input_path_def output_path_def demo_env_def Let_def)

subsection \<open>The success path\<close>

text \<open>
  C1, as claimed: every response with status 200 and a body that is not empty makes the
  handler write a new output file and return its path with the success message. Two
  inputs show otherwise. On a file system whose write returns and leaves the file empty,
  the test of line 104 makes the handler return no path and the invalid-file message.
  And in the second of two submissions within one second the path returned is that of a
  file that was there before the call, holding the first response.
\<close>

theorem success_claim_counterexample:
  "upload ((demo_env (always (Inr (reply 200 [1, 2, 3] not_json))))\<lparr>write_file := empty_write\<rparr>)
       clip world0
     = (Continue (reply 200 [1, 2, 3] not_json), world2)
   \<and> fst (voice_chat
        ((demo_env (always (Inr (reply 200 [1, 2, 3] not_json))))\<lparr>write_file := empty_write\<rparr>)
        (Some clip) world0)
     = Inr (None, msg_output_invalid)
   \<and> files world3 output_path = Some [1, 2, 3]
   \<and> fst (voice_chat (demo_env two_replies) (Some clip) world3)
     = Inr (Some output_path, msg_success)"
proof -
  let ?r = "reply 200 [1, 2, 3] not_json"
  let ?E = "(demo_env (always (Inr ?r)))\<lparr>write_file := empty_write\<rparr>"
  have si: "save_input ?E clip world0
              = (Continue (''input_1700000000.wav'', input_path), world1)"
    by (simp add: save_input_def clip_def world0_def world1_def time_time_def demo_env_def
        py_int_def show_1700000000 os_path_join_def path_exists_def input_path_def Let_def)
  have se: "send_request ?E ''input_1700000000.wav'' input_path world1 = (Continue ?r, world2)"
    by (simp add: send_request_def open_rb_def demo_env_def world1_def world2_def request0_def
        always_def Let_def)
  have up: "upload ?E clip world0 = (Continue ?r, world2)"
    by (simp add: upload_def si se demo_progress)
  have hr: "handle_response ?E ?r world2
              = (Inr (None, msg_output_invalid),
                 world2\<lparr>ticks := 2, files := (files world2)(output_path \<mapsto> [])\<rparr>)"
    by (simp add: handle_response_def reply_def time_time_def world2_def save_output_def
        missing_or_empty_def empty_write_def py_int_def show_1700000000 os_path_join_def
        output_path_def demo_env_def Let_def)
  have run: "fst (voice_chat ?E (Some clip) world0) = Inr (None, msg_output_invalid)"
    by (simp add: voice_chat_def try_body_def up hr demo_progress)
  have before: "files world3 output_path = Some [1, 2, 3]"
    by (simp add: world3_def)
  show ?thesis
    using up run before by (simp add: demo_second_run)
qed

text \<open>
  C1, amended. When the response that reaches line 82 has status 200 and a body that is
  not empty, the write the handler asks of the file system is that of exactly the
  response bytes to the output path. When that write returns and leaves the file there
  and not empty, and the last progress report does not raise, the handler returns the
  output path together with the success message, and the files at return are the ones
  that write left: on a file system that stores what is written, the file holds exactly
  the bytes of the response body.
\<close>

theorem voice_chat_success_roundtrip:
  assumes "progress E 0 ''Memproses suara...'' = None"
    and "upload E a w = (Continue resp, w1)"
    and "status_code resp = 200"
    and "content resp \<noteq> []"
    and "gettempdir E = Inr dir"
    and "out = os_path_join dir (''tts_output_'' @ show_int (py_int (clock E (ticks w1))) @ ''.wav'')"
    and "write_file E out (content resp) (files w1) = (None, fs')"
    and "\<not> missing_or_empty fs' out"
    and "progress E 1 ''Selesai!'' = None"
  shows "fst (voice_chat E (Some a) w) = Inr (Some out, msg_success)
         \<and> files (snd (voice_chat E (Some a) w)) = fs'
         \<and> (fs' = (files w1)(out \<mapsto> content resp) \<longrightarrow>
              files (snd (voice_chat E (Some a) w)) out = Some (content resp))"
  using assms
  by (simp add: voice_chat_def try_body_def handle_response_def time_time_def save_output_def
      Let_def)

theorem voice_chat_success_roundtrip_witness:
  "upload (demo_env (always (Inr (reply 200 [1, 2, 3] not_json)))) clip world0
     = (Continue (reply 200 [1, 2, 3] not_json), world2)
   \<and> write_file (demo_env (always (Inr (reply 200 [1, 2, 3] not_json)))) output_path [1, 2, 3]
        (files world2)
     = (None, (files world2)(output_path \<mapsto> [1, 2, 3]))
   \<and> \<not> missing_or_empty ((files world2)(output_path \<mapsto> [1, 2, 3])) output_path
   \<and> fst (voice_chat (demo_env (always (Inr (reply 200 [1, 2, 3] not_json)))) (Some clip) world0)
     = Inr (Some output_path, msg_success)
   \<and> files (snd (voice_chat (demo_env (always (Inr (reply 200 [1, 2, 3] not_json))))
        (Some clip) world0)) output_path = Some [1, 2, 3]"
proof -
  let ?r = "reply 200 [1, 2, 3] not_json"
  let ?E = "demo_env (always (Inr ?r))"
  let ?fs = "(files world2)(output_path \<mapsto> [1, 2, 3])"
  have up: "upload ?E clip world0 = (Continue ?r, world2)"
    by (simp add: demo_upload always_def)
  have out: "output_path =
      os_path_join ''/tmp'' (''tts_output_'' @ show_int (py_int (clock ?E (ticks world2))) @ ''.wav'')"
    by (simp add: world2_def demo_fields py_int_def show_1700000000 os_path_join_def
        output_path_def)
  have wr: "write_file ?E output_path (content ?r) (files world2) = (None, ?fs)"
    by (simp add: demo_fields reply_def)
  have ok: "\<not> missing_or_empty ?fs output_path"
    by (simp add: missing_or_empty_def)
  have "fst (voice_chat ?E (Some clip) world0) = Inr (Some output_path, msg_success)
        \<and> files (snd (voice_chat ?E (Some clip) world0)) = ?fs
        \<and> (?fs = (files world2)(output_path \<mapsto> content ?r) \<longrightarrow>
             files (snd (voice_chat ?E (Some clip) world0)) output_path = Some (content ?r))"
    by (rule voice_chat_success_roundtrip [OF _ up _ _ _ out wr ok])
       (simp_all add: demo_progress demo_fields reply_def)
  then show ?thesis
    using up wr ok by (simp add: reply_def)
qed

text \<open>
  C2. The claim is that two submissions in immediate succession get two distinct output
  file names. The name is built from \<^verbatim>\<open>int(time.time())\<close>, the whole seconds of the
  clock: run twice within one second, the handler returns the same path both times and
  the second run replaces what the first wrote there.
\<close>

theorem same_second_overwrites:
  "fst (voice_chat (demo_env two_replies) (Some clip) world0)
     = Inr (Some output_path, msg_success)
   \<and> files (snd (voice_chat (demo_env two_replies) (Some clip) world0)) output_path
     = Some [1, 2, 3]
   \<and> fst (voice_chat (demo_env two_replies) (Some clip)
        (snd (voice_chat (demo_env two_replies) (Some clip) world0)))
     = Inr (Some output_path, msg_success)
   \<and> files (snd (voice_chat (demo_env two_replies) (Some clip)
        (snd (voice_chat (demo_env two_replies) (Some clip) world0)))) output_path
     = Some [4, 5]"
  by (simp add: demo_first_run demo_second_run) (simp add: world3_def)

subsection \<open>Absent audio\<close>

text \<open>
  C3. When the audio is absent (\<^verbatim>\<open>None\<close>), the handler returns no file path and the
  warning that asks the user to record first, and leaves the world as it found it: no
  request is issued and no file is written, whatever the collaborators would do.
\<close>

theorem voice_chat_absent_audio:
  "voice_chat E None w = (Inr (None, msg_no_audio), w)"
  by (simp add: voice_chat_def)

subsection \<open>Responses other than 200\<close>

text \<open>
  C4. When the response that reaches line 82 has a status other than 200, the handler
  returns no file path and a message that contains the value of the body's message
  field, as an f-string renders it (a string value as it is), when the field is present,
  and the decimal status code when the body is empty, does not parse or has no such
  field. The world is the one at line 82.
\<close>

theorem voice_chat_server_error:
  assumes "progress E 0 ''Memproses suara...'' = None"
    and "upload E a w = (Continue resp, w1)"
    and "status_code resp \<noteq> 200"
  shows "\<exists>msg. voice_chat E (Some a) w = (Inr (None, msg), w1)
           \<and> (case message_field resp of
                 Some m \<Rightarrow> sublist (format_value E m) msg
               | None \<Rightarrow> sublist (show_int (status_code resp)) msg)
           \<and> (\<forall>s. message_field resp = Some (JString s) \<longrightarrow> sublist s msg)"
proof -
  let ?msg = "msg_server_error (error_detail E resp)"
  have run: "voice_chat E (Some a) w = (Inr (None, ?msg), w1)"
    using assms by (simp add: voice_chat_def try_body_def handle_response_def)
  have inside: "sublist (error_detail E resp) ?msg"
    unfolding msg_server_error_def by (metis append_Nil2 append_assoc sublist_appendI)
  have code: "sublist (show_int (status_code resp)) (status_detail resp)"
    unfolding status_detail_def by (metis append_Nil2 sublist_appendI)
  have detail: "case message_field resp of
          Some m \<Rightarrow> error_detail E resp = format_value E m
        | None \<Rightarrow> error_detail E resp = status_detail resp"
    by (simp add: message_field_def error_detail_def get_message_def
        split: sum.splits json_value.splits option.splits)
  then have rendered: "case message_field resp of
          Some m \<Rightarrow> sublist (format_value E m) ?msg
        | None \<Rightarrow> sublist (show_int (status_code resp)) ?msg"
    using inside code by (auto split: option.splits intro: sublist_order.order_trans)
  have "\<forall>s. message_field resp = Some (JString s) \<longrightarrow> sublist s ?msg"
    using rendered by (auto simp: format_value_def)
  with run rendered show ?thesis by blast
qed

theorem voice_chat_server_error_witness:
  "upload (demo_env (always (Inr error_body))) clip world0 = (Continue error_body, world2)
   \<and> status_code error_body \<noteq> 200
   \<and> message_field error_body = Some (JString ''model not loaded'')
   \<and> (\<exists>msg. voice_chat (demo_env (always (Inr error_body))) (Some clip) world0
               = (Inr (None, msg), world2)
             \<and> sublist ''model not loaded'' msg)"
proof -
  let ?E = "demo_env (always (Inr error_body))"
  have up: "upload ?E clip world0 = (Continue error_body, world2)"
    by (simp add: demo_upload always_def)
  have st: "status_code error_body \<noteq> 200"
    by (simp add: error_body_def reply_def)
  have mf: "message_field error_body = Some (JString ''model not loaded'')"
    by (simp add: message_field_def error_body_def reply_def)
  have p0: "progress ?E 0 ''Memproses suara...'' = None"
    by (simp add: demo_env_def)
  from voice_chat_server_error [OF p0 up st]
  have "\<exists>msg. voice_chat ?E (Some clip) world0 = (Inr (None, msg), world2)
             \<and> sublist ''model not loaded'' msg"
    by (simp add: mf format_value_def)
  with up st mf show ?thesis by blast
qed

subsection \<open>Exceptions\<close>

text \<open>
  C5. The claim is that no exception leaves the handler. The first progress report of
  line 30 stands before the \<^verbatim>\<open>try\<close> of line 32: an exception the progress sink
  raises there leaves the handler, while \<open>voice_chat_returns\<close> above shows that nothing
  raised later does.
\<close>

theorem first_progress_report_escapes:
  "voice_chat ((demo_env two_replies)\<lparr>progress := failing_sink\<rparr>) (Some clip) world0
     = (Inl sink_error, world0)"
  by (simp add: voice_chat_def failing_sink_def)




text \<open>
  C7, as claimed: whenever the connection cannot be established the handler returns the
  connection-failure message. It does not when establishing the connection times out:
  the exception is then both a connection error and a timeout, and the clause for
  timeouts (line 65) stands before the clause for connection errors (line 70).
\<close>

theorem connect_timeout_counterexample:
  "requests_post (demo_env (always (Inl connect_timeout))) (posts world1) request0
     = Inl connect_timeout
   \<and> is_connection_error connect_timeout
   \<and> voice_chat (demo_env (always (Inl connect_timeout))) (Some clip) world0
       = (Inr (None, msg_timeout), world2)
   \<and> msg_timeout \<noteq> msg_connection"
proof -
  let ?E = "demo_env (always (Inl connect_timeout))"
  have post: "requests_post ?E (posts world1) request0 = Inl connect_timeout"
    by (simp add: demo_fields always_def)
  have up: "upload ?E clip world0 = (Return (request_failed connect_timeout), world2)"
    by (simp add: demo_upload always_def)
  have first_clause: "request_failed connect_timeout = (None, msg_timeout)"
    by (simp add: request_failed_def connect_timeout_def)
  have run: "voice_chat ?E (Some clip) world0 = (Inr (None, msg_timeout), world2)"
    by (simp add: voice_chat_def try_body_def up demo_progress first_clause)
  have "msg_timeout \<noteq> msg_connection"
    by (simp add: msg_timeout_def msg_connection_def clock_sign_def plug_sign_def)
  with post run show ?thesis
    by (simp add: connect_timeout_def)
qed

text \<open>
  C7, amended. When the input file is saved and opened and the HTTP client raises a
  connection error that is not a timeout, the handler returns no file path and exactly
  the connection-failure message; the world at return is the one after the input was
  saved with the request added to the log, so no output file is written.
\<close>

theorem voice_chat_connection_failure:
  assumes "progress E 0 ''Memproses suara...'' = None"
    and "save_input E a w = (Continue (audio_filename, audio_path), w1)"
    and "progress E (3 / 10) ''Mengirim ke server...'' = None"
    and "open_rb E audio_path w1 = Inr f"
    and "requests_post E (posts w1) (upload_request audio_filename f) = Inl e"
    and "is_connection_error e"
    and "\<not> is_timeout e"
  shows "voice_chat E (Some a) w =
           (Inr (None, msg_connection),
            w1\<lparr>posts := posts w1 @ [upload_request audio_filename f]\<rparr>)"
  using assms
  by (simp add: voice_chat_def try_body_def upload_def send_request_def request_failed_def
      Let_def)

theorem voice_chat_connection_failure_witness:
  "requests_post (demo_env (always (Inl connection_refused))) (posts world1) request0
     = Inl connection_refused
   \<and> is_connection_error connection_refused \<and> \<not> is_timeout connection_refused
   \<and> voice_chat (demo_env (always (Inl connection_refused))) (Some clip) world0
       = (Inr (None, msg_connection), world2)"
proof -
  let ?E = "demo_env (always (Inl connection_refused))"
  have si: "save_input ?E clip world0 = (Continue (''input_1700000000.wav'', input_path), world1)"
    by (rule demo_save_input)
  have op: "open_rb ?E input_path world1 = Inr riff"
    by (simp add: open_rb_def demo_env_def world1_def)
  have post: "requests_post ?E (posts world1) (upload_request ''input_1700000000.wav'' riff)
                = Inl connection_refused"
    by (simp add: demo_env_def always_def)
  have ce: "is_connection_error connection_refused" and nt: "\<not> is_timeout connection_refused"
    by (simp_all add: connection_refused_def)
  have w: "world1\<lparr>posts := posts world1 @ [upload_request ''input_1700000000.wav'' riff]\<rparr> = world2"
    by (simp add: world1_def world2_def request0_def)
  from voice_chat_connection_failure [OF _ si _ op post ce nt]
  have "voice_chat ?E (Some clip) world0 = (Inr (None, msg_connection), world2)"
    by (simp add: w demo_progress)
  with post ce nt show ?thesis by (simp add: request0_def)
qed

subsection \<open>An empty body\<close>

text \<open>
  C8. When the response that reaches line 82 has status 200 and an empty body, the
  handler returns no file path and the empty-response message; the world at return is
  the one at line 82, whose files are those the codec left when the input was saved, so
  no output file is written.
\<close>

theorem voice_chat_empty_response:
  assumes "progress E 0 ''Memproses suara...'' = None"
    and "upload E a w = (Continue resp, w1)"
    and "status_code resp = 200"
    and "content resp = []"
  shows "voice_chat E (Some a) w = (Inr (None, msg_empty_response), w1)
         \<and> files w1 = files (snd (save_input E a w))"
  using assms upload_files [of E a w "Continue resp" w1]
  by (simp add: voice_chat_def try_body_def handle_response_def)

theorem voice_chat_empty_response_witness:
  "upload (demo_env (always (Inr (reply 200 [] not_json)))) clip world0
     = (Continue (reply 200 [] not_json), world2)
   \<and> voice_chat (demo_env (always (Inr (reply 200 [] not_json)))) (Some clip) world0
     = (Inr (None, msg_empty_response), world2)
   \<and> dom (files world2) = {input_path}"
proof -
  let ?r = "reply 200 [] not_json"
  let ?E = "demo_env (always (Inr ?r))"
  have up: "upload ?E clip world0 = (Continue ?r, world2)"
    by (simp add: demo_upload always_def)
  have "voice_chat ?E (Some clip) world0 = (Inr (None, msg_empty_response), world2)
        \<and> files world2 = files (snd (save_input ?E clip world0))"
    by (rule voice_chat_empty_response [OF _ up]) (simp_all add: demo_progress reply_def)
  moreover have "dom (files world2) = {input_path}"
    by (simp add: world2_def)
  ultimately show ?thesis
    using up by blast
qed

subsection \<open>Path and message\<close>

text \<open>
  C9. Whatever the input and the collaborators, when the handler returns a pair, its file
  path is not \<^verbatim>\<open>None\<close> exactly when its message is the success message.
\<close>

theorem voice_chat_path_iff_success:
  "fst (voice_chat E audio w) = Inr (p, m) \<Longrightarrow> (p \<noteq> None) = (m = msg_success)"
  unfolding voice_chat_def
  by (auto simp: success_distinct split: option.splits prod.splits sum.splits
      dest: try_body_result)

theorem voice_chat_path_iff_success_witness:
  "fst (voice_chat (demo_env two_replies) (Some clip) world0) = Inr (Some output_path, msg_success)
   \<and> ((Some output_path \<noteq> None) = (msg_success = msg_success))"
proof -
  let ?E = "demo_env two_replies"
  have run: "fst (voice_chat ?E (Some clip) world0) = Inr (Some output_path, msg_success)"
    by (simp add: demo_first_run)
  show ?thesis
    by (rule conjI [OF run voice_chat_path_iff_success [OF run]])
qed

subsection \<open>An input file that is not there\<close>

text \<open>
  C10. When the codec returns without raising and the input file does not exist
  afterwards, the handler returns no file path and the input-save-failure message
  (\<^verbatim>\<open>Gagal menyimpan file audio\<close> after the warning sign), and the log of requests is
  as it was: no request is issued.
\<close>

theorem voice_chat_input_not_saved:
  assumes "progress E 0 ''Memproses suara...'' = None"
    and "gettempdir E = Inr dir"
    and "audio_path = os_path_join dir (''input_'' @ show_int (py_int (clock E (ticks w))) @ ''.wav'')"
    and "wavfile_write E audio_path sr audio_data (files w) = (None, fs')"
    and "fs' audio_path = None"
  shows "voice_chat E (Some (Captured sr audio_data)) w =
           (Inr (None, msg_input_save_failed), w\<lparr>ticks := Suc (ticks w), files := fs'\<rparr>)
         \<and> posts (snd (voice_chat E (Some (Captured sr audio_data)) w)) = posts w"
  using assms
  by (simp add: voice_chat_def try_body_def upload_def save_input_def time_time_def
      path_exists_def Let_def)

theorem voice_chat_input_not_saved_witness:
  "wavfile_write ((demo_env two_replies)\<lparr>wavfile_write := idle_codec\<rparr>) input_path 16000
       [0, 0, 0, 0] (files world0) = (None, Map.empty)
   \<and> voice_chat ((demo_env two_replies)\<lparr>wavfile_write := idle_codec\<rparr>) (Some clip) world0
       = (Inr (None, msg_input_save_failed), world0\<lparr>ticks := 1\<rparr>)
   \<and> posts (snd (voice_chat ((demo_env two_replies)\<lparr>wavfile_write := idle_codec\<rparr>)
        (Some clip) world0)) = []"
proof -
  let ?E = "(demo_env two_replies)\<lparr>wavfile_write := idle_codec\<rparr>"
  have p0: "progress ?E 0 ''Memproses suara...'' = None"
    and tmp: "gettempdir ?E = Inr ''/tmp''"
    by (simp_all add: demo_env_def)
  have path: "input_path =
      os_path_join ''/tmp'' (''input_'' @ show_int (py_int (clock ?E (ticks world0))) @ ''.wav'')"
    by (simp add: world0_def demo_env_def py_int_def show_1700000000 os_path_join_def
        input_path_def)
  have codec: "wavfile_write ?E input_path 16000 [0, 0, 0, 0] (files world0) = (None, Map.empty)"
    by (simp add: idle_codec_def world0_def)
  from voice_chat_input_not_saved [OF p0 tmp path codec]
  have "voice_chat ?E (Some clip) world0
          = (Inr (None, msg_input_save_failed), world0\<lparr>ticks := 1\<rparr>)
        \<and> posts (snd (voice_chat ?E (Some clip) world0)) = []"
    by (simp add: clip_def world0_def)
  with codec show ?thesis by blast
qed

end
